theory Spec2Isabelle
  imports Main "HOL-Library.AList"
begin

section \<open>Data model\<close>

text \<open>
  Failures are values.  \<open>invariant(cond, msg)\<close> of tiny-invariant throws when \<open>cond\<close> is
  falsy; the message it was given is kept in \<open>Invariant_failed\<close>.  \<open>new URL(path, base)\<close>
  throws a TypeError on a base that is not an absolute URL.  The storage layer may reject
  a request: an update or a delete of a row that is not there (\<open>Record_not_found\<close>), a
  new row that lacks a column (\<open>Storage_rejected\<close>).  Whatever a remote collaborator
  (product lookup, image encoder) raises is an \<open>External\<close> error carrying its text.
\<close>

datatype error =
    Invariant_failed string
  | TypeError_Invalid_URL
  | Record_not_found
  | Storage_rejected
  | External string

text \<open>
  The columns that the form, the validator, the resolver and the storage layer share.  The
  type parameter is the type of a text field: \<open>string\<close> in a stored row, \<open>string option\<close>
  in a submitted form, where a key may be absent (\<open>undefined\<close> in the source).
\<close>

record 'a qr_fields =
  title :: 'a
  shop :: string
  productId :: 'a
  productHandle :: 'a
  productVariantId :: 'a
  destination :: 'a

text \<open>
  A stored row: the columns, the generated id (the property \<open>id\<close> of the source, here
  \<open>qr_id\<close>), the scan counter, the creation time.
\<close>

record qrcode = "string qr_fields" +
  qr_id :: int
  scans :: int
  createdAt :: nat

section \<open>Destination resolver\<close>

definition variant_prefix :: string where
  "variant_prefix = ''gid://shopify/ProductVariant/''"

definition is_digit :: "char \<Rightarrow> bool" where
  "is_digit c = (c \<in> set ''0123456789'')"

text \<open>\<open>strip_prefix p s\<close> is the rest of \<open>s\<close> after its prefix \<open>p\<close>, when \<open>p\<close> is one.\<close>

fun strip_prefix :: "string \<Rightarrow> string \<Rightarrow> string option" where
  "strip_prefix [] s = Some s"
| "strip_prefix (p # ps) [] = None"
| "strip_prefix (p # ps) (c # cs) = (if p = c then strip_prefix ps cs else None)"

text \<open>
  One attempt of the regular expression \<open>gid:\/\/shopify\/ProductVariant\/([0-9]+)\<close> at the
  start of \<open>s\<close>: the literal text, then the longest non-empty run of digits, which is the
  capture group.
\<close>

definition match_at :: "string \<Rightarrow> string option" where
  "match_at s =
     (case strip_prefix variant_prefix s of
        None \<Rightarrow> None
      | Some r \<Rightarrow> (let ds = takeWhile is_digit r in if ds = [] then None else Some ds))"

text \<open>
  \<open>RegExp.prototype.exec\<close> without the sticky flag: the attempts start at position 0 and
  move right, and the first one that succeeds is the match.  The result is capture group 1
  of the match (\<open>match[1]\<close>), \<open>None\<close> for \<open>null\<close>.
\<close>

fun regex_exec :: "string \<Rightarrow> string option" where
  "regex_exec [] = match_at []"
| "regex_exec (c # cs) =
     (case match_at (c # cs) of Some ds \<Rightarrow> Some ds | None \<Rightarrow> regex_exec cs)"

text \<open>
  \<open>getDestinationUrl\<close>: the product page when the destination is exactly \<open>product\<close>;
  for every other destination the variant id is parsed, the invariant on the match may
  throw, and the result is the cart permalink.
\<close>

definition getDestinationUrl :: "(string, 'm) qr_fields_scheme \<Rightarrow> error + string" where
  "getDestinationUrl qrCode =
     (if destination qrCode = ''product''
      then Inr (''https://'' @ shop qrCode @ ''/products/'' @ productHandle qrCode)
      else
        (case regex_exec (productVariantId qrCode) of
           None \<Rightarrow> Inl (Invariant_failed ''Unrecognized product variant ID'')
         | Some ds \<Rightarrow> Inr (''https://'' @ shop qrCode @ ''/cart/'' @ ds @ '':1'')))"

text \<open>
  What the specification calls a reference that matches the pattern: somewhere in it stands
  the literal text followed by at least one digit.
\<close>

definition matches_variant_pattern :: "string \<Rightarrow> bool" where
  "matches_variant_pattern s =
     (\<exists>pre d rest. s = pre @ variant_prefix @ d # rest \<and> is_digit d)"

section \<open>Code image generator\<close>

text \<open>
  A template literal renders a number with \<open>Number::toString\<close>; for the integers that serve
  as ids this is the decimal numeral, with a minus sign below zero.
\<close>

definition digit_char :: "nat \<Rightarrow> char" where
  "digit_char n = ''0123456789'' ! (n mod 10)"

function string_of_nat :: "nat \<Rightarrow> string" where
  "string_of_nat n =
     (if n < 10 then [digit_char n] else string_of_nat (n div 10) @ [digit_char n])"
  by pat_completeness auto
termination
  by (relation "measure (\<lambda>n. n)") auto

declare string_of_nat.simps [simp del]

definition Number_toString :: "int \<Rightarrow> string" where
  "Number_toString i =
     (if i < 0 then CHR ''-'' # string_of_nat (nat (- i)) else string_of_nat (nat i))"

text \<open>
  The environment of the server: the origin (scheme, host and port, as the URL parser
  serialises it) of \<open>process.env.SHOPIFY_APP_URL\<close>, which is \<open>None\<close> when the variable is
  unset or is not an absolute URL, and the encoder \<open>qrcode.toDataURL\<close> of the qrcode
  package, whose promise settles with a data URI or with a failure.
\<close>

record env =
  SHOPIFY_APP_URL :: "string option"
  toDataURL :: "string \<Rightarrow> error + string"

text \<open>
  \<open>new URL(path, base).href\<close> for a path that starts with a slash: the origin of the base,
  then the path.  The constructor throws when the base is not an absolute URL.
\<close>

definition new_URL :: "string \<Rightarrow> string option \<Rightarrow> error + string" where
  "new_URL path base =
     (case base of None \<Rightarrow> Inl TypeError_Invalid_URL | Some origin \<Rightarrow> Inr (origin @ path))"

text \<open>Calls to the remote collaborators are recorded, in the order in which they are issued.\<close>

datatype event = Encode string | Query string

text \<open>
  \<open>getQRCodeImage\<close> is not an async function: a failure of \<open>new URL\<close> is thrown to the
  caller (outer \<open>Inl\<close>), otherwise the promise of the encoder is returned as it is (outer
  \<open>Inr\<close>, holding what the promise settles with).
\<close>

definition getQRCodeImage :: "env \<Rightarrow> int \<Rightarrow> (error + (error + string)) \<times> event list" where
  "getQRCodeImage e i =
     (case new_URL (''/qrcodes/'' @ Number_toString i @ ''/scan'') (SHOPIFY_APP_URL e) of
        Inl err \<Rightarrow> (Inl err, [])
      | Inr href \<Rightarrow> (Inr (toDataURL e href), [Encode href]))"

section \<open>Validator\<close>

text \<open>
  A form value is a string or is absent; \<open>!v\<close> holds for the absent value and for the empty
  string.
\<close>

definition falsy :: "string option \<Rightarrow> bool" where
  "falsy v = (v = None \<or> v = Some [])"

text \<open>
  The \<open>errors\<close> object is an association list in insertion order, and an assignment to a
  property is \<open>AList.update\<close>.  One \<open>if (!data.f) errors.f = msg\<close> statement is \<open>check\<close>.
\<close>

definition check ::
  "(string \<times> string) list \<Rightarrow> string \<times> string option \<times> string \<Rightarrow> (string \<times> string) list" where
  "check errors c = (case c of (k, v, msg) \<Rightarrow> if falsy v then AList.update k msg errors else errors)"

definition title_check :: "(string option, 'm) qr_fields_scheme \<Rightarrow> string \<times> string option \<times> string" where
  "title_check data = (''title'', title data, ''Title is required'')"

definition productId_check :: "(string option, 'm) qr_fields_scheme \<Rightarrow> string \<times> string option \<times> string" where
  "productId_check data = (''productId'', productId data, ''Product is required'')"

definition destination_check :: "(string option, 'm) qr_fields_scheme \<Rightarrow> string \<times> string option \<times> string" where
  "destination_check data = (''destination'', destination data, ''Destination is required'')"

text \<open>The last statement: the object when it has a key, \<open>undefined\<close> otherwise.\<close>

definition finish :: "(string \<times> string) list \<Rightarrow> (string \<times> string) list option" where
  "finish errors = (if length (map fst errors) \<noteq> 0 then Some errors else None)"

definition validateQRCode ::
  "(string option, 'm) qr_fields_scheme \<Rightarrow> (string \<times> string) list option" where
  "validateQRCode data =
     (let errors = [];
          errors = check errors (title_check data);
          errors = check errors (productId_check data);
          errors = check errors (destination_check data)
      in finish errors)"


section \<open>Storage\<close>

text \<open>
  Modelled from the spec: the storage collaborator (\<open>db.server\<close>, a client generated from a
  schema that is not among the sources).  The table is the list of its rows.  The
  specification names the operations: find by id, find many by shop ordered by id
  descending, create (the id is generated by the storage layer), update (the submitted
  columns replace the stored ones), delete, and the atomic increment of a column.  A
  find by id of a row that is not there is a null result, not an error.  An update or a
  delete has a row to work on, and a new row has a value in every column: without them
  the request is rejected.
\<close>

type_synonym db = "qrcode list"

text \<open>
  The number in a \<open>where\<close> clause comes from \<open>Number(params.id)\<close>, which is not an integer
  for every string (\<open>NaN\<close>, a fraction).  An id column holds integers only, so such a
  number is the id of no row.
\<close>

datatype js_number = Integer int | Not_integer

text \<open>
  Modelled from the spec: find by id; the first row with the id, or the null result when
  no row has it.
\<close>

definition findFirst :: "db \<Rightarrow> js_number \<Rightarrow> qrcode option" where
  "findFirst table n = find (\<lambda>r. Integer (qr_id r) = n) table"

text \<open>Modelled from the spec: find many by shop, ordered by id descending.\<close>

definition findMany :: "db \<Rightarrow> string \<Rightarrow> qrcode list" where
  "findMany table s = rev (sort_key qr_id (filter (\<lambda>r. shop r = s) table))"

text \<open>
  Modelled from the spec: create.  The id is generated by the storage layer and is above
  every id in the table; the scan counter starts at 0.
\<close>

definition fresh_id :: "db \<Rightarrow> int" where
  "fresh_id table = 1 + fold max (map qr_id table) 0"

definition create ::
  "db \<Rightarrow> (string option, 'm) qr_fields_scheme \<Rightarrow> nat \<Rightarrow> error + qrcode \<times> db" where
  "create table data now =
     (case (title data, productId data, productHandle data, productVariantId data,
            destination data) of
        (Some t, Some p, Some h, Some v, Some d) \<Rightarrow>
          (let row = \<lparr>title = t, shop = shop data, productId = p, productHandle = h,
                      productVariantId = v, destination = d,
                      qr_id = fresh_id table, scans = 0, createdAt = now\<rparr>
           in Inr (row, table @ [row]))
      | _ \<Rightarrow> Inl Storage_rejected)"

text \<open>
  Modelled from the spec: update.  The columns that the submitted data carry replace the
  stored ones; id, scan counter and creation time stay.
\<close>

definition or_keep :: "string option \<Rightarrow> string \<Rightarrow> string" where
  "or_keep v old = (case v of None \<Rightarrow> old | Some s \<Rightarrow> s)"

definition replace_columns :: "(string option, 'm) qr_fields_scheme \<Rightarrow> qrcode \<Rightarrow> qrcode" where
  "replace_columns data r =
     r\<lparr>title := or_keep (title data) (title r),
       shop := shop data,
       productId := or_keep (productId data) (productId r),
       productHandle := or_keep (productHandle data) (productHandle r),
       productVariantId := or_keep (productVariantId data) (productVariantId r),
       destination := or_keep (destination data) (destination r)\<rparr>"

definition change_row :: "db \<Rightarrow> js_number \<Rightarrow> (qrcode \<Rightarrow> qrcode) \<Rightarrow> error + qrcode \<times> db" where
  "change_row table n f =
     (case findFirst table n of
        None \<Rightarrow> Inl Record_not_found
      | Some r \<Rightarrow> Inr (f r, map (\<lambda>r. if Integer (qr_id r) = n then f r else r) table))"

definition update ::
  "db \<Rightarrow> js_number \<Rightarrow> (string option, 'm) qr_fields_scheme \<Rightarrow> error + qrcode \<times> db" where
  "update table n data = change_row table n (replace_columns data)"

text \<open>Modelled from the spec: the atomic increment of the scan counter of one row.\<close>

definition increment_scans :: "db \<Rightarrow> js_number \<Rightarrow> error + qrcode \<times> db" where
  "increment_scans table n = change_row table n (\<lambda>r. r\<lparr>scans := scans r + 1\<rparr>)"

text \<open>Modelled from the spec: delete, which removes the row with the id.\<close>

definition delete :: "db \<Rightarrow> js_number \<Rightarrow> error + db" where
  "delete table n =
     (case findFirst table n of
        None \<Rightarrow> Inl Record_not_found
      | Some r \<Rightarrow> Inr (filter (\<lambda>r. Integer (qr_id r) \<noteq> n) table))"

section \<open>Enrichment service\<close>

text \<open>
  The answer of the remote product lookup: \<open>data.product\<close> is \<open>null\<close> (here \<open>None\<close>) when the
  product does not exist, otherwise it carries the title and at most one image node.
\<close>

datatype image_node = Image_node (altText: "string option") (url: string)

datatype product = Product (product_title: string) (nodes: "image_node list")

text \<open>
  The augmented view: every column of the row, then the six computed properties (the
  property \<open>image\<close> of the source is \<open>image_src\<close> here).
\<close>

record enriched = qrcode +
  productDeleted :: bool
  productTitle :: "string option"
  productImage :: "string option"
  productAlt :: "string option"
  destinationUrl :: string
  image_src :: string

definition first_node :: "product option \<Rightarrow> image_node option" where
  "first_node p =
     (case p of
        None \<Rightarrow> None
      | Some pr \<Rightarrow> (case nodes pr of [] \<Rightarrow> None | n # ns \<Rightarrow> Some n))"

definition augment :: "qrcode \<Rightarrow> product option \<Rightarrow> string \<Rightarrow> string \<Rightarrow> enriched" where
  "augment qrCode p dest img =
     qrcode.extend qrCode
       (enriched.fields
          (case p of None \<Rightarrow> True | Some pr \<Rightarrow> product_title pr = [])
          (map_option product_title p)
          (map_option url (first_node p))
          (Option.bind (first_node p) altText)
          dest
          img)"

text \<open>
  \<open>supplementQRCode\<close>: the image is requested first and not yet awaited, then the product
  is queried and awaited; the object literal then evaluates \<open>getDestinationUrl\<close>, which may
  throw, and last awaits the image.  The first failure in this order is the outcome.
\<close>

definition supplementQRCode ::
  "env \<Rightarrow> qrcode \<Rightarrow> (string \<Rightarrow> error + product option) \<Rightarrow> (error + enriched) \<times> event list" where
  "supplementQRCode e qrCode graphql =
     (case getQRCodeImage e (qr_id qrCode) of
        (Inl err, evs) \<Rightarrow> (Inl err, evs)
      | (Inr qrCodeImagePromise, evs) \<Rightarrow>
          (let evs' = evs @ [Query (productId qrCode)] in
           case graphql (productId qrCode) of
             Inl err \<Rightarrow> (Inl err, evs')
           | Inr p \<Rightarrow>
               (case getDestinationUrl qrCode of
                  Inl err \<Rightarrow> (Inl err, evs')
                | Inr dest \<Rightarrow>
                    (case qrCodeImagePromise of
                       Inl err \<Rightarrow> (Inl err, evs')
                     | Inr img \<Rightarrow> (Inr (augment qrCode p dest img), evs')))))"

definition getQRCode ::
  "env \<Rightarrow> db \<Rightarrow> js_number \<Rightarrow> (string \<Rightarrow> error + product option) \<Rightarrow>
     (error + enriched option) \<times> event list" where
  "getQRCode e table n graphql =
     (case findFirst table n of
        None \<Rightarrow> (Inr None, [])
      | Some qrCode \<Rightarrow>
          (case supplementQRCode e qrCode graphql of
             (Inl err, evs) \<Rightarrow> (Inl err, evs)
           | (Inr v, evs) \<Rightarrow> (Inr (Some v), evs)))"

text \<open>
  \<open>Promise.all\<close> is fulfilled with the list of the values when every promise is
  fulfilled.  Otherwise it is rejected with the reason of the promise that was rejected
  first in time, and which one that is depends on the timing of the remote calls: the
  outcome then names the reasons of all rejected promises, of which it is one.
\<close>

datatype 'a outcome = Fulfilled 'a | Rejected_one_of "error list"

fun Promise_all :: "(error + 'a) list \<Rightarrow> 'a list outcome" where
  "Promise_all [] = Fulfilled []"
| "Promise_all (Inl err # ps) =
     (case Promise_all ps of
        Fulfilled vs \<Rightarrow> Rejected_one_of [err]
      | Rejected_one_of errs \<Rightarrow> Rejected_one_of (err # errs))"
| "Promise_all (Inr v # ps) =
     (case Promise_all ps of
        Fulfilled vs \<Rightarrow> Fulfilled (v # vs)
      | Rejected_one_of errs \<Rightarrow> Rejected_one_of errs)"

text \<open>
  \<open>getQRCodes\<close>: every call of \<open>supplementQRCode\<close> inside \<open>map\<close> runs up to its first
  \<open>await\<close> before the next one starts, so the remote calls are issued row by row.
\<close>

definition getQRCodes ::
  "env \<Rightarrow> db \<Rightarrow> string \<Rightarrow> (string \<Rightarrow> error + product option) \<Rightarrow>
     enriched list outcome \<times> event list" where
  "getQRCodes e table s graphql =
     (let qrCodes = findMany table s in
      if length qrCodes = 0 then (Fulfilled [], [])
      else
        (let rs = map (\<lambda>qrCode. supplementQRCode e qrCode graphql) qrCodes
         in (Promise_all (map fst rs), concat (map snd rs))))"

text \<open>
  The relation between a row and a view that its enrichment can return: the collaborators
  answered, the destination resolved, and the view is the row with the computed properties.
\<close>

definition view_of ::
  "env \<Rightarrow> (string \<Rightarrow> error + product option) \<Rightarrow> enriched \<Rightarrow> qrcode \<Rightarrow> bool" where
  "view_of e graphql v r \<longleftrightarrow>
     (\<exists>origin p dest img.
        SHOPIFY_APP_URL e = Some origin \<and> graphql (productId r) = Inr p \<and>
        getDestinationUrl r = Inr dest \<and>
        toDataURL e (origin @ ''/qrcodes/'' @ Number_toString (qr_id r) @ ''/scan'') = Inr img \<and>
        v = augment r p dest img)"

section \<open>Route handlers\<close>

text \<open>The dynamic segment of the route, absent or a string.\<close>

record params =
  params_id :: "string option"

text \<open>
  What a handler answers: a redirect to a location, or the validation errors as JSON with
  a status code.
\<close>

datatype response = Redirect string | Json_errors "(string \<times> string) list" nat

text \<open>
  \<open>Number\<close> is a parameter of the handlers, named \<open>toNumber\<close>: the conversion of a string to
  a number is the language's, and the theorems hold for every conversion.  \<open>Number(undefined)\<close>
  is \<open>NaN\<close>.
\<close>

definition Number_of :: "(string \<Rightarrow> js_number) \<Rightarrow> string option \<Rightarrow> js_number" where
  "Number_of toNumber v = (case v of None \<Rightarrow> Not_integer | Some s \<Rightarrow> toNumber s)"

text \<open>
  The scan handler (\<open>loader\<close> of the scan route).  The handler answers and leaves the table
  in a new state.
\<close>

definition loader ::
  "(string \<Rightarrow> js_number) \<Rightarrow> params \<Rightarrow> db \<Rightarrow> (error + response) \<times> db" where
  "loader toNumber ps table =
     (if falsy (params_id ps)
      then (Inl (Invariant_failed ''Could not find QR code destination''), table)
      else
        (let n = Number_of toNumber (params_id ps) in
         case findFirst table n of
           None \<Rightarrow> (Inl (Invariant_failed ''Could not find QR code destination''), table)
         | Some qrCode \<Rightarrow>
             (case increment_scans table n of
                Inl err \<Rightarrow> (Inl err, table)
              | Inr (r, table') \<Rightarrow>
                  (case getDestinationUrl qrCode of
                     Inl err \<Rightarrow> (Inl err, table')
                   | Inr dest \<Rightarrow> (Inr (Redirect dest), table')))))"

text \<open>
  A submitted form: the columns and the action discriminator (the key \<open>action\<close> of the
  source, here \<open>action_key\<close>), each absent or a string.  The shop of the session overrides
  whatever the form carries under that key.  The storage layer is handed the whole object
  and reads the columns.
\<close>

record form_data = "string option qr_fields" +
  action_key :: "string option"

definition action ::
  "(string \<Rightarrow> js_number) \<Rightarrow> nat \<Rightarrow> string \<Rightarrow> form_data \<Rightarrow> params \<Rightarrow> db \<Rightarrow>
     (error + response) \<times> db" where
  "action toNumber now session_shop formData ps table =
     (let data = formData\<lparr>shop := session_shop\<rparr> in
      if action_key data = Some ''delete''
      then
        (case delete table (Number_of toNumber (params_id ps)) of
           Inl err \<Rightarrow> (Inl err, table)
         | Inr table' \<Rightarrow> (Inr (Redirect ''/app''), table'))
      else
        (case validateQRCode data of
           Some errors \<Rightarrow> (Inr (Json_errors errors 422), table)
         | None \<Rightarrow>
             (case (if params_id ps = Some ''new''
                    then create table data now
                    else update table (Number_of toNumber (params_id ps)) data) of
                Inl err \<Rightarrow> (Inl err, table)
              | Inr (qrCode, table') \<Rightarrow>
                  (Inr (Redirect (''/app/qrcodes/'' @ Number_toString (qr_id qrCode))), table'))))"

section \<open>Example inputs\<close>

definition product_row :: qrcode where
  "product_row =
     \<lparr>title = ''Hat'', shop = ''example.myshopify.com'',
      productId = ''gid://shopify/Product/10'', productHandle = ''hat'',
      productVariantId = ''gid://shopify/ProductVariant/4242'', destination = ''product'',
      qr_id = 42, scans = 7, createdAt = 0\<rparr>"

definition cart_row :: qrcode where
  "cart_row = product_row\<lparr>destination := ''cart''\<rparr>"

definition checkout_row :: qrcode where
  "checkout_row = product_row\<lparr>destination := ''checkout''\<rparr>"

definition broken_row :: qrcode where
  "broken_row = cart_row\<lparr>productVariantId := ''gid://shopify/Product/10''\<rparr>"

definition twice_row :: qrcode where
  "twice_row =
     cart_row\<lparr>productVariantId :=
       ''gid://shopify/ProductVariant/1gid://shopify/ProductVariant/2''\<rparr>"

definition complete_draft :: form_data where
  "complete_draft =
     \<lparr>title = Some ''Hat'', shop = ''unused'',
      productId = Some ''gid://shopify/Product/10'', productHandle = Some ''hat'',
      productVariantId = Some ''gid://shopify/ProductVariant/4242'',
      destination = Some ''cart'', action_key = None\<rparr>"

definition draft :: form_data where
  "draft = complete_draft\<lparr>title := Some [], destination := None\<rparr>"

text \<open>
  An environment for the examples.  Its encoder stands for the one of the qrcode package:
  it answers with a payload in which the encoded text can be read.
\<close>

definition example_env :: env where
  "example_env =
     \<lparr>SHOPIFY_APP_URL = Some ''https://app.example.com'',
      toDataURL = (\<lambda>href. Inr (''data:image/png;base64,'' @ href))\<rparr>"

text \<open>A product lookup that finds no product, and one that knows a single product.\<close>

definition product_gone :: "string \<Rightarrow> error + product option" where
  "product_gone pid = Inr None"

definition product_lookup :: "string \<Rightarrow> error + product option" where
  "product_lookup pid =
     (if pid = ''gid://shopify/Product/10''
      then Inr (Some (Product ''Hat''
                  [Image_node (Some ''A red hat'') ''https://cdn.example.com/hat.png'']))
      else Inr None)"

text \<open>A table with rows of two shops, and a conversion for the ids of the examples.\<close>

definition example_table :: db where
  "example_table =
     [product_row\<lparr>qr_id := 1\<rparr>,
      cart_row\<lparr>qr_id := 2, shop := ''other.myshopify.com''\<rparr>,
      cart_row\<lparr>qr_id := 3, productId := ''gid://shopify/Product/11''\<rparr>]"

definition example_Number :: "string \<Rightarrow> js_number" where
  "example_Number s =
     (if s = ''42'' then Integer 42 else if s = ''7'' then Integer 7 else Not_integer)"

definition scan_params :: params where
  "scan_params = \<lparr>params_id = Some ''42''\<rparr>"

text \<open>What the delete button submits: the discriminator and nothing else.\<close>

definition delete_form :: form_data where
  "delete_form =
     \<lparr>title = None, shop = [], productId = None, productHandle = None,
      productVariantId = None, destination = None, action_key = Some ''delete''\<rparr>"

section \<open>The regular expression\<close>

lemma strip_prefix_Some: "strip_prefix p s = Some r \<longleftrightarrow> s = p @ r"
  by (induction p s rule: strip_prefix.induct) auto

lemma strip_prefix_append: "strip_prefix p (p @ r) = Some r"
  by (simp add: strip_prefix_Some)

lemma match_at_Some:
  "match_at s = Some ds \<longleftrightarrow>
     (\<exists>r. s = variant_prefix @ r \<and> ds = takeWhile is_digit r \<and> ds \<noteq> [])"
  by (auto simp: match_at_def Let_def strip_prefix_Some strip_prefix_append split: option.splits)

lemma match_at_None:
  "match_at s = None \<longleftrightarrow> (\<forall>r. s = variant_prefix @ r \<longrightarrow> takeWhile is_digit r = [])"
  by (auto simp: match_at_def Let_def strip_prefix_Some strip_prefix_append split: option.splits)

lemma takeWhile_digit_Nil: "takeWhile is_digit r = [] \<longleftrightarrow> (r = [] \<or> \<not> is_digit (hd r))"
  by (cases r) auto

lemma match_at_not_None:
  "match_at u \<noteq> None \<longleftrightarrow> (\<exists>d rest. u = variant_prefix @ d # rest \<and> is_digit d)"
proof
  assume "match_at u \<noteq> None"
  then obtain ds where "match_at u = Some ds" by auto
  then obtain r where r: "u = variant_prefix @ r" "takeWhile is_digit r \<noteq> []"
    by (auto simp: match_at_Some)
  then have "r \<noteq> []" "is_digit (hd r)" by (auto simp: takeWhile_digit_Nil)
  then obtain d rest where "r = d # rest" "is_digit d" by (cases r) auto
  with r show "\<exists>d rest. u = variant_prefix @ d # rest \<and> is_digit d" by blast
next
  assume "\<exists>d rest. u = variant_prefix @ d # rest \<and> is_digit d"
  then obtain d rest where u: "u = variant_prefix @ d # rest" "is_digit d" by blast
  then have "match_at u = Some (takeWhile is_digit (d # rest))"
    unfolding match_at_Some by auto
  then show "match_at u \<noteq> None" by simp
qed

text \<open>The search fails exactly when no attempt succeeds at any position.\<close>

lemma regex_exec_None:
  "regex_exec s = None \<longleftrightarrow> (\<forall>pre u. s = pre @ u \<longrightarrow> match_at u = None)"
proof (induction s)
  case Nil
  show ?case by simp
next
  case (Cons c cs)
  show ?case
    by (auto simp: Cons Cons_eq_append_conv split: option.splits)
qed

lemma regex_exec_None_iff: "regex_exec s = None \<longleftrightarrow> \<not> matches_variant_pattern s"
proof -
  have "matches_variant_pattern s \<longleftrightarrow> (\<exists>pre u. s = pre @ u \<and> match_at u \<noteq> None)"
    unfolding matches_variant_pattern_def match_at_not_None by blast
  then show ?thesis by (simp add: regex_exec_None)
qed

lemma prefix_no_digit: "c \<in> set variant_prefix \<Longrightarrow> \<not> is_digit c"
  by (auto simp: variant_prefix_def is_digit_def)

text \<open>
  An attempt that fails inside a text still fails when the literal text is appended: the
  character that would have to be a digit is either where it was or a character of the
  literal text.
\<close>

lemma match_at_extend:
  assumes "u \<noteq> []" "match_at u = None"
  shows "match_at (u @ variant_prefix @ x) = None"
proof -
  have vp: "variant_prefix \<noteq> []" by (simp add: variant_prefix_def)
  have "takeWhile is_digit r = []" if eq: "u @ variant_prefix @ x = variant_prefix @ r" for r
  proof -
    from eq obtain w where
      "(u = variant_prefix @ w \<and> w @ variant_prefix @ x = r) \<or>
       (u @ w = variant_prefix \<and> variant_prefix @ x = w @ r)"
      by (auto simp: append_eq_append_conv2)
    then show ?thesis
    proof
      assume a: "u = variant_prefix @ w \<and> w @ variant_prefix @ x = r"
      with assms have w: "w = [] \<or> \<not> is_digit (hd w)"
        by (simp add: match_at_None takeWhile_digit_Nil)
      have "hd r = (if w = [] then hd variant_prefix else hd w)"
        using a vp by (auto simp: hd_append)
      moreover have "\<not> is_digit (hd variant_prefix)"
        using vp by (intro prefix_no_digit) simp
      ultimately show ?thesis using w by (auto simp: takeWhile_digit_Nil)
    next
      assume a: "u @ w = variant_prefix \<and> variant_prefix @ x = w @ r"
      with assms(1) have len: "length w < length variant_prefix"
        by (metis length_append length_greater_0_conv less_add_same_cancel2)
      from a have "r = drop (length w) (variant_prefix @ x)"
        by (metis append_eq_conv_conj)
      with len have r: "r = drop (length w) variant_prefix @ x" by simp
      from len have "hd r = variant_prefix ! length w"
        unfolding r by (simp add: hd_append hd_drop_conv_nth)
      with len have "hd r \<in> set variant_prefix" by simp
      then show ?thesis by (simp add: takeWhile_digit_Nil prefix_no_digit)
    qed
  qed
  then show ?thesis by (simp add: match_at_None)
qed

text \<open>The leftmost successful attempt is the match.\<close>

lemma regex_exec_first:
  assumes "regex_exec pre = None" "match_at (variant_prefix @ x) = Some ds"
  shows "regex_exec (pre @ variant_prefix @ x) = Some ds"
  using assms(1)
proof (induction pre)
  case Nil
  have "variant_prefix @ x \<noteq> []" by (simp add: variant_prefix_def)
  then obtain c cs where "variant_prefix @ x = c # cs" by (cases "variant_prefix @ x") auto
  with assms(2) show ?case by simp
next
  case (Cons c cs)
  from Cons.prems have "match_at (c # cs) = None" "regex_exec cs = None"
    by (auto split: option.splits)
  with Cons.IH match_at_extend [of "c # cs" x] show ?case by simp
qed

lemma match_at_digits:
  assumes "ds \<noteq> []" "\<forall>c\<in>set ds. is_digit c" "rest = [] \<or> \<not> is_digit (hd rest)"
  shows "match_at (variant_prefix @ ds @ rest) = Some ds"
proof -
  have "takeWhile is_digit (ds @ rest) = ds"
    using assms(2,3) by (cases rest) (auto simp: takeWhile_append)
  with assms(1) show ?thesis by (simp add: match_at_Some)
qed

lemmas regex_eval = match_at_def variant_prefix_def is_digit_def

section \<open>Destination resolver: the claims\<close>

text \<open>
  Claim C1.  For every record whose destination is \<open>product\<close>, whatever its shop and its
  product handle, \<open>getDestinationUrl\<close> returns exactly \<open>https://{shop}/products/{productHandle}\<close>.
  The resolver is a function of the record alone: it reads no state and calls no collaborator.
\<close>

theorem getDestinationUrl_product:
  "destination qrCode = ''product'' \<Longrightarrow>
   getDestinationUrl qrCode =
     Inr (''https://'' @ shop qrCode @ ''/products/'' @ productHandle qrCode)"
  by (simp add: getDestinationUrl_def)

theorem getDestinationUrl_product_witness:
  "destination product_row = ''product'' \<and>
   getDestinationUrl product_row = Inr ''https://example.myshopify.com/products/hat''"
  using getDestinationUrl_product [of product_row] by (simp add: product_row_def)

text \<open>
  Claim C2, as amended.  The claim as written fails where the reference holds the pattern
  twice: the digits that end the reference are then not the digits of the leftmost match,
  and it is the leftmost match that the resolver uses.  What holds: for every record whose
  destination is \<open>cart\<close> and whose variant reference is some text without a match, then
  \<open>gid://shopify/ProductVariant/\<close>, then a non-empty run of digits \<open>D\<close> that ends the
  reference, \<open>getDestinationUrl\<close> returns exactly \<open>https://{shop}/cart/{D}:1\<close>.
\<close>

theorem cart_url_of_leftmost_match:
  assumes "destination qrCode = ''cart''"
    and "productVariantId qrCode = pre @ variant_prefix @ ds"
    and "ds \<noteq> []" and "\<forall>c\<in>set ds. is_digit c"
    and "\<not> matches_variant_pattern pre"
  shows "getDestinationUrl qrCode = Inr (''https://'' @ shop qrCode @ ''/cart/'' @ ds @ '':1'')"
proof -
  from assms(3,4) have "match_at (variant_prefix @ ds @ []) = Some ds"
    by (intro match_at_digits) auto
  with assms(5) have "regex_exec (pre @ variant_prefix @ ds) = Some ds"
    using regex_exec_first [of pre ds ds] by (simp add: regex_exec_None_iff)
  with assms(1,2) show ?thesis by (simp add: getDestinationUrl_def)
qed

theorem cart_url_of_leftmost_match_witness:
  "destination cart_row = ''cart'' \<and>
   productVariantId cart_row = [] @ variant_prefix @ ''4242'' \<and>
   \<not> matches_variant_pattern [] \<and>
   getDestinationUrl cart_row = Inr ''https://example.myshopify.com/cart/4242:1''"
proof -
  have none: "\<not> matches_variant_pattern []"
    using regex_exec_None_iff [of "[]"] by (simp add: regex_eval)
  have ref: "productVariantId cart_row = [] @ variant_prefix @ ''4242''"
    by (simp add: cart_row_def product_row_def variant_prefix_def)
  have dest: "destination cart_row = ''cart''"
    by (simp add: cart_row_def)
  have "getDestinationUrl cart_row = Inr (''https://'' @ shop cart_row @ ''/cart/'' @ ''4242'' @ '':1'')"
    by (rule cart_url_of_leftmost_match [OF dest ref _ _ none]) (simp_all add: is_digit_def)
  with dest ref none show ?thesis by (simp add: cart_row_def product_row_def)
qed

text \<open>
  The input that refutes claim C2 as written: the reference ends with the pattern and the
  digit 2, the resolver answers with the cart of variant 1.
\<close>

theorem cart_url_twice_counterexample:
  "destination twice_row = ''cart'' \<and>
   productVariantId twice_row = ''gid://shopify/ProductVariant/1'' @ variant_prefix @ ''2'' \<and>
   getDestinationUrl twice_row = Inr ''https://example.myshopify.com/cart/1:1'' \<and>
   getDestinationUrl twice_row \<noteq> Inr (''https://'' @ shop twice_row @ ''/cart/'' @ ''2'' @ '':1'')"
  by (simp add: twice_row_def cart_row_def product_row_def getDestinationUrl_def regex_eval)

text \<open>
  The literal text is part of the pattern: a reference of the same shape under another
  namespace has no match, and the resolver fails on it.
\<close>

lemma other_namespace_fails:
  "getDestinationUrl (cart_row\<lparr>productVariantId := ''gid://other/ProductVariant/5''\<rparr>) =
     Inl (Invariant_failed ''Unrecognized product variant ID'')"
  by (simp add: cart_row_def product_row_def getDestinationUrl_def regex_eval)

text \<open>
  Claim C3.  For every record whose destination is \<open>cart\<close> and whose variant reference
  does not match the pattern (nowhere in it stands \<open>gid://shopify/ProductVariant/\<close>
  followed by a digit), \<open>getDestinationUrl\<close> fails with the error of the invariant; it
  returns no URL.
\<close>

theorem cart_invalid_reference_fails:
  assumes "destination qrCode = ''cart''"
    and "\<not> matches_variant_pattern (productVariantId qrCode)"
  shows "getDestinationUrl qrCode = Inl (Invariant_failed ''Unrecognized product variant ID'') \<and>
         (\<forall>u. getDestinationUrl qrCode \<noteq> Inr u)"
proof -
  from assms(2) have "regex_exec (productVariantId qrCode) = None"
    by (simp add: regex_exec_None_iff)
  with assms(1) show ?thesis by (simp add: getDestinationUrl_def)
qed

theorem cart_invalid_reference_fails_witness:
  "destination broken_row = ''cart'' \<and>
   \<not> matches_variant_pattern (productVariantId broken_row) \<and>
   getDestinationUrl broken_row = Inl (Invariant_failed ''Unrecognized product variant ID'')"
proof -
  have dest: "destination broken_row = ''cart''"
    by (simp add: broken_row_def cart_row_def)
  have "regex_exec (productVariantId broken_row) = None"
    by (simp add: broken_row_def regex_eval)
  then have none: "\<not> matches_variant_pattern (productVariantId broken_row)"
    by (simp add: regex_exec_None_iff)
  from cart_invalid_reference_fails [OF dest none] dest none show ?thesis by simp
qed

text \<open>
  Claim C10.  The resolver never compares the destination with \<open>cart\<close>: for every record
  whose destination is anything but the exact string \<open>product\<close> the answer is the one for
  the same record with destination \<open>cart\<close>, that is, the variant reference is parsed and
  the result is the cart URL of the match, or the error of the invariant when nothing
  matches.
\<close>

theorem getDestinationUrl_not_product:
  assumes "destination qrCode \<noteq> ''product''"
  shows "getDestinationUrl qrCode = getDestinationUrl (qrCode\<lparr>destination := ''cart''\<rparr>) \<and>
         getDestinationUrl qrCode =
           (case regex_exec (productVariantId qrCode) of
              None \<Rightarrow> Inl (Invariant_failed ''Unrecognized product variant ID'')
            | Some ds \<Rightarrow> Inr (''https://'' @ shop qrCode @ ''/cart/'' @ ds @ '':1''))"
  using assms by (simp add: getDestinationUrl_def split: option.split)

theorem getDestinationUrl_not_product_witness:
  "destination checkout_row \<noteq> ''product'' \<and>
   getDestinationUrl checkout_row = Inr ''https://example.myshopify.com/cart/4242:1'' \<and>
   getDestinationUrl (product_row\<lparr>destination := [], productVariantId := ''4242''\<rparr>) =
     Inl (Invariant_failed ''Unrecognized product variant ID'')"
proof -
  have a: "destination checkout_row \<noteq> ''product''"
    by (simp add: checkout_row_def)
  have b: "destination (product_row\<lparr>destination := [], productVariantId := ''4242''\<rparr>) \<noteq> ''product''"
    by simp
  have "getDestinationUrl checkout_row = Inr ''https://example.myshopify.com/cart/4242:1''"
    unfolding getDestinationUrl_not_product [OF a, THEN conjunct2]
    by (simp add: checkout_row_def product_row_def regex_eval)
  moreover
  have "getDestinationUrl (product_row\<lparr>destination := [], productVariantId := ''4242''\<rparr>) =
          Inl (Invariant_failed ''Unrecognized product variant ID'')"
    unfolding getDestinationUrl_not_product [OF b, THEN conjunct2]
    by (simp add: regex_eval)
  ultimately show ?thesis using a by simp
qed

section \<open>Validator: the claim\<close>









lemmas check_defs = title_check_def productId_check_def destination_check_def



section \<open>Code image generator: the claim\<close>

lemma Number_toString_42: "Number_toString 42 = ''42''"
  by (simp add: Number_toString_def string_of_nat.simps digit_char_def)

text \<open>
  Claim C8, as amended.  The path that the generator builds is \<open>/qrcodes/<id>/scan\<close>, not
  \<open>/<id>/scan\<close>.  For every integer id and every configured base origin, \<open>getQRCodeImage\<close>
  builds that path under the origin, hands the URL to the encoder once, and returns what
  the encoder returns, be it the data URI or its failure.
\<close>

theorem getQRCodeImage_url:
  assumes "SHOPIFY_APP_URL e = Some origin"
  shows "getQRCodeImage e i =
           (Inr (toDataURL e (origin @ ''/qrcodes/'' @ Number_toString i @ ''/scan'')),
            [Encode (origin @ ''/qrcodes/'' @ Number_toString i @ ''/scan'')])"
  using assms by (simp add: getQRCodeImage_def new_URL_def)

theorem getQRCodeImage_url_witness:
  "SHOPIFY_APP_URL example_env = Some ''https://app.example.com'' \<and>
   getQRCodeImage example_env 42 =
     (Inr (Inr ''data:image/png;base64,https://app.example.com/qrcodes/42/scan''),
      [Encode ''https://app.example.com/qrcodes/42/scan''])"
proof -
  have o: "SHOPIFY_APP_URL example_env = Some ''https://app.example.com''"
    by (simp add: example_env_def)
  from getQRCodeImage_url [OF o, of 42] o show ?thesis
    by (simp add: Number_toString_42) (simp add: example_env_def)
qed

text \<open>
  The input that refutes claim C8 as written: for id 42 under the origin
  \<open>https://app.example.com\<close> the one text handed to the encoder is the URL with the path
  \<open>/qrcodes/42/scan\<close>; the URL with the path \<open>/42/scan\<close> is never encoded.
\<close>

theorem getQRCodeImage_url_counterexample:
  "snd (getQRCodeImage example_env 42) = [Encode ''https://app.example.com/qrcodes/42/scan''] \<and>
   Encode (''https://app.example.com'' @ ''/'' @ Number_toString 42 @ ''/scan'')
     \<notin> set (snd (getQRCodeImage example_env 42)) \<and>
   fst (getQRCodeImage example_env 42) \<noteq>
     Inr (toDataURL example_env (''https://app.example.com'' @ ''/'' @ Number_toString 42 @ ''/scan''))"
  by (simp add: getQRCodeImage_def new_URL_def example_env_def Number_toString_42)

section \<open>Enrichment service: the claims\<close>

lemma augment_columns: "qrcode.truncate (augment qrCode p dest img) = qrCode"
  by (simp add: augment_def qrcode.defs enriched.defs)

lemma augment_None:
  "productDeleted (augment qrCode None dest img)"
  "productTitle (augment qrCode None dest img) = None"
  "productImage (augment qrCode None dest img) = None"
  "productAlt (augment qrCode None dest img) = None"
  by (simp_all add: augment_def first_node_def qrcode.defs enriched.defs)

lemma augment_computed:
  "destinationUrl (augment qrCode p dest img) = dest"
  "image_src (augment qrCode p dest img) = img"
  "qr_id (augment qrCode p dest img) = qr_id qrCode"
  by (simp_all add: augment_def qrcode.defs enriched.defs)

text \<open>
  Claim C5, as amended.  A missing product is never the reason for a failure, but the view
  is produced only when the other two parts are: for every record whose product lookup
  answers that there is no such product, whose destination resolves and whose image is
  encoded, \<open>supplementQRCode\<close> returns a view with the deleted flag set, no product title,
  image or alt text, the columns of the record as they are, the destination URL and the image.
\<close>

theorem supplementQRCode_product_missing:
  assumes "graphql (productId qrCode) = Inr None"
    and "getDestinationUrl qrCode = Inr dest"
    and "fst (getQRCodeImage e (qr_id qrCode)) = Inr (Inr img)"
  shows "\<exists>v. fst (supplementQRCode e qrCode graphql) = Inr v \<and>
             productDeleted v \<and> productTitle v = None \<and> productImage v = None \<and>
             productAlt v = None \<and> qrcode.truncate v = qrCode \<and>
             destinationUrl v = dest \<and> image_src v = img"
proof -
  obtain evs where "getQRCodeImage e (qr_id qrCode) = (Inr (Inr img), evs)"
    using assms(3) by (cases "getQRCodeImage e (qr_id qrCode)") simp
  with assms(1,2)
  have "fst (supplementQRCode e qrCode graphql) = Inr (augment qrCode None dest img)"
    by (simp add: supplementQRCode_def)
  then show ?thesis
    by (simp add: augment_None augment_columns augment_computed)
qed

theorem supplementQRCode_product_missing_witness:
  "product_gone (productId cart_row) = Inr None \<and>
   getDestinationUrl cart_row = Inr ''https://example.myshopify.com/cart/4242:1'' \<and>
   fst (getQRCodeImage example_env (qr_id cart_row)) =
     Inr (Inr ''data:image/png;base64,https://app.example.com/qrcodes/42/scan'') \<and>
   (\<exists>v. fst (supplementQRCode example_env cart_row product_gone) = Inr v \<and>
        productDeleted v \<and> productTitle v = None \<and> productImage v = None \<and>
        productAlt v = None \<and> qrcode.truncate v = cart_row \<and>
        destinationUrl v = ''https://example.myshopify.com/cart/4242:1'' \<and>
        image_src v = ''data:image/png;base64,https://app.example.com/qrcodes/42/scan'')"
proof -
  have a: "product_gone (productId cart_row) = Inr None"
    by (simp add: product_gone_def)
  have b: "getDestinationUrl cart_row = Inr ''https://example.myshopify.com/cart/4242:1''"
    by (simp add: cart_row_def product_row_def getDestinationUrl_def regex_eval)
  have c: "fst (getQRCodeImage example_env (qr_id cart_row)) =
     Inr (Inr ''data:image/png;base64,https://app.example.com/qrcodes/42/scan'')"
    by (simp add: getQRCodeImage_def new_URL_def example_env_def cart_row_def product_row_def
        Number_toString_42)
  from supplementQRCode_product_missing
    [where graphql = product_gone and qrCode = cart_row and e = example_env, OF a b c] a b c
  show ?thesis by simp
qed

text \<open>
  The input that refutes claim C5 as written: a record whose product is gone and whose
  variant reference does not parse.  The enrichment raises the error of the resolver; no
  view is produced.
\<close>

theorem supplementQRCode_product_missing_counterexample:
  "product_gone (productId broken_row) = Inr None \<and>
   fst (supplementQRCode example_env broken_row product_gone) =
     Inl (Invariant_failed ''Unrecognized product variant ID'')"
  by (simp add: supplementQRCode_def getQRCodeImage_def new_URL_def example_env_def
      product_gone_def getDestinationUrl_def regex_eval broken_row_def cart_row_def
      product_row_def)

text \<open>
  \<open>Promise.all\<close> is fulfilled exactly by a list of fulfilled promises, with their values in
  order; when it is rejected, the reasons it names are those of the rejected promises.
\<close>

lemma Promise_all_map_Inr: "Promise_all (map Inr vs) = Fulfilled vs"
  by (induction vs) auto

lemma Promise_all_Fulfilled_D: "Promise_all ps = Fulfilled vs \<Longrightarrow> ps = map Inr vs"
proof (induction ps arbitrary: vs rule: Promise_all.induct)
  case 1
  then show ?case by simp
next
  case (2 err ps)
  then show ?case by (simp split: outcome.splits)
next
  case (3 v ps)
  from "3.prems" obtain ws where "Promise_all ps = Fulfilled ws" "vs = v # ws"
    by (auto split: outcome.splits)
  with "3.IH" show ?case by simp
qed

lemma Promise_all_Fulfilled: "Promise_all ps = Fulfilled vs \<longleftrightarrow> ps = map Inr vs"
  using Promise_all_Fulfilled_D Promise_all_map_Inr by blast

lemma Promise_all_Rejected:
  "Promise_all ps = Rejected_one_of errs \<Longrightarrow> errs \<noteq> [] \<and> set errs = {err. Inl err \<in> set ps}"
proof (induction ps arbitrary: errs rule: Promise_all.induct)
  case 1
  then show ?case by simp
next
  case (2 err ps)
  then show ?case
    by (auto split: outcome.splits simp: Promise_all_Fulfilled)
next
  case (3 v ps)
  then show ?case
    by (auto split: outcome.splits)
qed

lemma augment_row:
  "title (augment qrCode p dest img) = title qrCode"
  "shop (augment qrCode p dest img) = shop qrCode"
  "productId (augment qrCode p dest img) = productId qrCode"
  "productHandle (augment qrCode p dest img) = productHandle qrCode"
  "productVariantId (augment qrCode p dest img) = productVariantId qrCode"
  "destination (augment qrCode p dest img) = destination qrCode"
  by (simp_all add: augment_def qrcode.defs enriched.defs)

lemma augment_product:
  "productDeleted (augment qrCode p dest img) =
     (case p of None \<Rightarrow> True | Some pr \<Rightarrow> product_title pr = [])"
  "productTitle (augment qrCode p dest img) = map_option product_title p"
  "productImage (augment qrCode p dest img) =
     (case p of None \<Rightarrow> None
      | Some pr \<Rightarrow> (case nodes pr of [] \<Rightarrow> None | n # ns \<Rightarrow> Some (url n)))"
  "productAlt (augment qrCode p dest img) =
     (case p of None \<Rightarrow> None
      | Some pr \<Rightarrow> (case nodes pr of [] \<Rightarrow> None | n # ns \<Rightarrow> altText n))"
  by (simp_all add: augment_def first_node_def qrcode.defs enriched.defs
      split: option.splits list.splits)

lemma getDestinationUrl_augment:
  "getDestinationUrl (augment qrCode p dest img) = getDestinationUrl qrCode"
  by (simp add: getDestinationUrl_def augment_row split: option.split)

text \<open>What one enrichment does: when it returns a view, and which calls it issues.\<close>

lemma supplementQRCode_Inr:
  "fst (supplementQRCode e qrCode graphql) = Inr v \<longleftrightarrow>
     (\<exists>origin p dest img.
        SHOPIFY_APP_URL e = Some origin \<and> graphql (productId qrCode) = Inr p \<and>
        getDestinationUrl qrCode = Inr dest \<and>
        toDataURL e (origin @ ''/qrcodes/'' @ Number_toString (qr_id qrCode) @ ''/scan'') = Inr img \<and>
        v = augment qrCode p dest img)"
  by (auto simp: supplementQRCode_def getQRCodeImage_def new_URL_def Let_def
      split: option.splits sum.splits)

lemma supplementQRCode_calls:
  "SHOPIFY_APP_URL e = Some origin \<Longrightarrow>
   snd (supplementQRCode e qrCode graphql) =
     [Encode (origin @ ''/qrcodes/'' @ Number_toString (qr_id qrCode) @ ''/scan''),
      Query (productId qrCode)]"
  by (auto simp: supplementQRCode_def getQRCodeImage_def new_URL_def Let_def
      split: option.splits sum.splits)


lemma set_findMany: "set (findMany table s) = {r \<in> set table. shop r = s}"
  by (auto simp: findMany_def)

lemma length_findMany: "length (findMany table s) = length (filter (\<lambda>r. shop r = s) table)"
  by (simp add: findMany_def)

lemma sorted_findMany: "sorted_wrt (\<ge>) (map qr_id (findMany table s))"
  by (simp add: findMany_def rev_map[symmetric] sorted_wrt_rev del: rev_map)

lemma getQRCodes_fst:
  "fst (getQRCodes e table s graphql) =
     Promise_all (map (\<lambda>qrCode. fst (supplementQRCode e qrCode graphql)) (findMany table s))"
  by (simp add: getQRCodes_def Let_def comp_def)

lemma getQRCodes_snd:
  "snd (getQRCodes e table s graphql) =
     concat (map (\<lambda>qrCode. snd (supplementQRCode e qrCode graphql)) (findMany table s))"
  by (simp add: getQRCodes_def Let_def comp_def)

lemma map_eq_list_all2:
  "map f xs = map g ys \<Longrightarrow> list_all2 (\<lambda>x y. f x = g y) xs ys"
  by (induction xs arbitrary: ys) auto

lemma list_all2_map_eq: "list_all2 (\<lambda>x y. h x = k y) xs ys \<Longrightarrow> map h xs = map k ys"
  by (induction rule: list_all2_induct) auto

lemma list_all2_left: "list_all2 P xs ys \<Longrightarrow> x \<in> set xs \<Longrightarrow> \<exists>y\<in>set ys. P x y"
  by (induction rule: list_all2_induct) auto

lemma all_Inr_map: "\<forall>r\<in>set rs. \<exists>v. f r = Inr v \<Longrightarrow> \<exists>vs. map f rs = map Inr vs"
proof (induction rs)
  case Nil
  then show ?case by simp
next
  case (Cons r rs)
  then obtain v vs where "f r = Inr v" "map f rs = map Inr vs" by auto
  then have "map f (r # rs) = map Inr (v # vs)" by simp
  then show ?case ..
qed

lemma views_of_rows:
  assumes "map Inr views = map (\<lambda>r. fst (supplementQRCode e r graphql)) rows"
  shows "list_all2 (view_of e graphql) views rows"
proof -
  from assms have "list_all2 (\<lambda>v r. Inr v = fst (supplementQRCode e r graphql)) views rows"
    by (rule map_eq_list_all2)
  then show ?thesis
  proof (rule list_all2_mono)
    fix v r
    assume "Inr v = fst (supplementQRCode e r graphql)"
    then have "fst (supplementQRCode e r graphql) = Inr v" by simp
    then show "view_of e graphql v r"
      unfolding view_of_def by (simp only: supplementQRCode_Inr)
  qed
qed

lemma view_of_fields:
  assumes "view_of e graphql v r"
  shows "qrcode.truncate v = r" and "qr_id v = qr_id r"
    and "\<exists>p. graphql (productId v) = Inr p \<and>
            productDeleted v = (case p of None \<Rightarrow> True | Some pr \<Rightarrow> product_title pr = []) \<and>
            productTitle v = map_option product_title p \<and>
            productImage v =
              (case p of None \<Rightarrow> None
               | Some pr \<Rightarrow> (case nodes pr of [] \<Rightarrow> None | n # ns \<Rightarrow> Some (url n))) \<and>
            productAlt v =
              (case p of None \<Rightarrow> None
               | Some pr \<Rightarrow> (case nodes pr of [] \<Rightarrow> None | n # ns \<Rightarrow> altText n))"
    and "getDestinationUrl v = Inr (destinationUrl v)"
    and "\<exists>origin. SHOPIFY_APP_URL e = Some origin \<and>
            toDataURL e (origin @ ''/qrcodes/'' @ Number_toString (qr_id v) @ ''/scan'') =
              Inr (image_src v)"
proof -
  from assms obtain origin p dest img where
    o: "SHOPIFY_APP_URL e = Some origin" and p: "graphql (productId r) = Inr p" and
    d: "getDestinationUrl r = Inr dest" and
    i: "toDataURL e (origin @ ''/qrcodes/'' @ Number_toString (qr_id r) @ ''/scan'') = Inr img" and
    v: "v = augment r p dest img"
    unfolding view_of_def by blast
  show "qrcode.truncate v = r" by (simp add: v augment_columns)
  show "qr_id v = qr_id r" by (simp add: v augment_computed)
  show "\<exists>p. graphql (productId v) = Inr p \<and>
            productDeleted v = (case p of None \<Rightarrow> True | Some pr \<Rightarrow> product_title pr = []) \<and>
            productTitle v = map_option product_title p \<and>
            productImage v =
              (case p of None \<Rightarrow> None
               | Some pr \<Rightarrow> (case nodes pr of [] \<Rightarrow> None | n # ns \<Rightarrow> Some (url n))) \<and>
            productAlt v =
              (case p of None \<Rightarrow> None
               | Some pr \<Rightarrow> (case nodes pr of [] \<Rightarrow> None | n # ns \<Rightarrow> altText n))"
    using p by (intro exI [of _ p]) (simp add: v augment_row augment_product)
  show "getDestinationUrl v = Inr (destinationUrl v)"
    by (simp add: v getDestinationUrl_augment d augment_computed)
  show "\<exists>origin. SHOPIFY_APP_URL e = Some origin \<and>
            toDataURL e (origin @ ''/qrcodes/'' @ Number_toString (qr_id v) @ ''/scan'') =
              Inr (image_src v)"
    using o i by (simp add: v augment_computed)
qed


text \<open>
  Claim C6.  For a shop, \<open>getQRCodes\<close> returns views exactly when the enrichment of every
  row of that shop returns one, and it does so whenever the collaborators answer for each
  of these rows and its destination resolves; it is rejected only with the error of the
  enrichment of one of these rows.  The views it returns are, in this order, the rows of
  that shop and no others in descending order of id, each with the title, first image and
  alt text that the product lookup gave for the product of that row (deleted flag set and
  no title, image or alt text when there is no such product), the destination URL of that
  row and the image of that row's scan URL.  The remote calls are one encoding and one
  product query per row, row after row.  When the shop has no rows the result is the
  empty list and no call is issued, neither to the product lookup nor to the image
  encoder.
\<close>

theorem getQRCodes_all:
  "(findMany table s = [] \<longrightarrow> getQRCodes e table s graphql = (Fulfilled [], [])) \<and>
   (\<forall>views. fst (getQRCodes e table s graphql) = Fulfilled views \<longleftrightarrow>
      map Inr views =
        map (\<lambda>qrCode. fst (supplementQRCode e qrCode graphql)) (findMany table s)) \<and>
   (\<forall>views. fst (getQRCodes e table s graphql) = Fulfilled views \<longrightarrow>
      map qrcode.truncate views = findMany table s \<and>
      set (map qrcode.truncate views) = {r \<in> set table. shop r = s} \<and>
      length views = length (filter (\<lambda>r. shop r = s) table) \<and>
      sorted_wrt (\<ge>) (map qr_id views) \<and>
      (\<forall>v\<in>set views.
         (\<exists>p. graphql (productId v) = Inr p \<and>
            productDeleted v = (case p of None \<Rightarrow> True | Some pr \<Rightarrow> product_title pr = []) \<and>
            productTitle v = map_option product_title p \<and>
            productImage v =
              (case p of None \<Rightarrow> None
               | Some pr \<Rightarrow> (case nodes pr of [] \<Rightarrow> None | n # ns \<Rightarrow> Some (url n))) \<and>
            productAlt v =
              (case p of None \<Rightarrow> None
               | Some pr \<Rightarrow> (case nodes pr of [] \<Rightarrow> None | n # ns \<Rightarrow> altText n))) \<and>
         getDestinationUrl v = Inr (destinationUrl v) \<and>
         (\<exists>origin. SHOPIFY_APP_URL e = Some origin \<and>
            toDataURL e (origin @ ''/qrcodes/'' @ Number_toString (qr_id v) @ ''/scan'') =
              Inr (image_src v)))) \<and>
   ((\<forall>r\<in>set table. shop r = s \<longrightarrow>
       (\<exists>origin p dest img.
          SHOPIFY_APP_URL e = Some origin \<and> graphql (productId r) = Inr p \<and>
          getDestinationUrl r = Inr dest \<and>
          toDataURL e (origin @ ''/qrcodes/'' @ Number_toString (qr_id r) @ ''/scan'') =
            Inr img)) \<longrightarrow>
    (\<exists>views. fst (getQRCodes e table s graphql) = Fulfilled views)) \<and>
   (\<forall>errs. fst (getQRCodes e table s graphql) = Rejected_one_of errs \<longrightarrow>
      errs \<noteq> [] \<and>
      set errs =
        {err. \<exists>r\<in>set table. shop r = s \<and> fst (supplementQRCode e r graphql) = Inl err}) \<and>
   (\<forall>origin. SHOPIFY_APP_URL e = Some origin \<longrightarrow>
      snd (getQRCodes e table s graphql) =
        concat (map (\<lambda>r. [Encode (origin @ ''/qrcodes/'' @ Number_toString (qr_id r) @ ''/scan''),
                          Query (productId r)])
                  (findMany table s)))"
proof (intro conjI allI impI ballI)
  show "getQRCodes e table s graphql = (Fulfilled [], [])" if "findMany table s = []"
    using that by (simp add: getQRCodes_def)
next
  fix views
  show "fst (getQRCodes e table s graphql) = Fulfilled views \<longleftrightarrow>
      map Inr views =
        map (\<lambda>qrCode. fst (supplementQRCode e qrCode graphql)) (findMany table s)"
    by (auto simp: getQRCodes_fst Promise_all_Fulfilled)
next
  fix views
  assume "fst (getQRCodes e table s graphql) = Fulfilled views"
  then have "map Inr views =
      map (\<lambda>qrCode. fst (supplementQRCode e qrCode graphql)) (findMany table s)"
    by (auto simp: getQRCodes_fst Promise_all_Fulfilled)
  then have all: "list_all2 (view_of e graphql) views (findMany table s)"
    by (rule views_of_rows)
  then have "list_all2 (\<lambda>v r. qrcode.truncate v = id r) views (findMany table s)"
    by (rule list_all2_mono) (simp add: view_of_fields)
  then have "map qrcode.truncate views = map id (findMany table s)"
    by (rule list_all2_map_eq)
  then show rows: "map qrcode.truncate views = findMany table s" by simp
  show "set (map qrcode.truncate views) = {r \<in> set table. shop r = s}"
    unfolding rows by (rule set_findMany)
  from all show "length views = length (filter (\<lambda>r. shop r = s) table)"
    by (simp add: list_all2_lengthD length_findMany)
  from all have "list_all2 (\<lambda>v r. qr_id v = qr_id r) views (findMany table s)"
    by (rule list_all2_mono) (simp add: view_of_fields)
  then have "map qr_id views = map qr_id (findMany table s)"
    by (rule list_all2_map_eq)
  then show "sorted_wrt (\<ge>) (map qr_id views)"
    by (simp add: sorted_findMany)
  fix v
  assume "v \<in> set views"
  with all obtain r where v: "view_of e graphql v r"
    by (blast dest: list_all2_left)
  from view_of_fields(3) [OF v]
  show "\<exists>p. graphql (productId v) = Inr p \<and>
            productDeleted v = (case p of None \<Rightarrow> True | Some pr \<Rightarrow> product_title pr = []) \<and>
            productTitle v = map_option product_title p \<and>
            productImage v =
              (case p of None \<Rightarrow> None
               | Some pr \<Rightarrow> (case nodes pr of [] \<Rightarrow> None | n # ns \<Rightarrow> Some (url n))) \<and>
            productAlt v =
              (case p of None \<Rightarrow> None
               | Some pr \<Rightarrow> (case nodes pr of [] \<Rightarrow> None | n # ns \<Rightarrow> altText n))" .
  from view_of_fields(4) [OF v]
  show "getDestinationUrl v = Inr (destinationUrl v)" .
  from view_of_fields(5) [OF v]
  show "\<exists>origin. SHOPIFY_APP_URL e = Some origin \<and>
            toDataURL e (origin @ ''/qrcodes/'' @ Number_toString (qr_id v) @ ''/scan'') =
              Inr (image_src v)" .
next
  assume ok: "\<forall>r\<in>set table. shop r = s \<longrightarrow>
       (\<exists>origin p dest img.
          SHOPIFY_APP_URL e = Some origin \<and> graphql (productId r) = Inr p \<and>
          getDestinationUrl r = Inr dest \<and>
          toDataURL e (origin @ ''/qrcodes/'' @ Number_toString (qr_id r) @ ''/scan'') =
            Inr img)"
  have "\<forall>r\<in>set (findMany table s). \<exists>v. fst (supplementQRCode e r graphql) = Inr v"
  proof
    fix r
    assume "r \<in> set (findMany table s)"
    then have "r \<in> set table" "shop r = s" by (simp_all add: set_findMany)
    with ok obtain origin p dest img where
      "SHOPIFY_APP_URL e = Some origin \<and> graphql (productId r) = Inr p \<and>
       getDestinationUrl r = Inr dest \<and>
       toDataURL e (origin @ ''/qrcodes/'' @ Number_toString (qr_id r) @ ''/scan'') = Inr img"
      by blast
    then have "fst (supplementQRCode e r graphql) = Inr (augment r p dest img)"
      unfolding supplementQRCode_Inr by blast
    then show "\<exists>v. fst (supplementQRCode e r graphql) = Inr v" ..
  qed
  then have "\<exists>views. map (\<lambda>r. fst (supplementQRCode e r graphql)) (findMany table s) =
      map Inr views"
    by (rule all_Inr_map)
  then show "\<exists>views. fst (getQRCodes e table s graphql) = Fulfilled views"
    by (auto simp: getQRCodes_fst Promise_all_Fulfilled)
next
  fix errs
  assume "fst (getQRCodes e table s graphql) = Rejected_one_of errs"
  then have r: "errs \<noteq> [] \<and>
      set errs = {err. Inl err \<in>
        set (map (\<lambda>qrCode. fst (supplementQRCode e qrCode graphql)) (findMany table s))}"
    unfolding getQRCodes_fst by (rule Promise_all_Rejected)
  then show "errs \<noteq> []" by simp
  from r show "set errs =
        {err. \<exists>r\<in>set table. shop r = s \<and> fst (supplementQRCode e r graphql) = Inl err}"
    by (auto simp: set_findMany intro: rev_image_eqI)
next
  fix origin
  assume "SHOPIFY_APP_URL e = Some origin"
  then show "snd (getQRCodes e table s graphql) =
        concat (map (\<lambda>r. [Encode (origin @ ''/qrcodes/'' @ Number_toString (qr_id r) @ ''/scan''),
                          Query (productId r)])
                  (findMany table s))"
    by (simp add: getQRCodes_snd supplementQRCode_calls)
qed


theorem getQRCodes_all_witness:
  "findMany example_table ''nobody.myshopify.com'' = [] \<and>
   getQRCodes example_env example_table ''nobody.myshopify.com'' product_lookup =
     (Fulfilled [], []) \<and>
   (\<exists>views. fst (getQRCodes example_env example_table ''example.myshopify.com'' product_lookup) =
        Fulfilled views \<and>
      map qr_id views = [3, 1] \<and>
      map productDeleted views = [True, False] \<and>
      map productTitle views = [None, Some ''Hat''] \<and>
      map productImage views = [None, Some ''https://cdn.example.com/hat.png''] \<and>
      map productAlt views = [None, Some ''A red hat''] \<and>
      map destinationUrl views =
        [''https://example.myshopify.com/cart/4242:1'',
         ''https://example.myshopify.com/products/hat''] \<and>
      map image_src views =
        [''data:image/png;base64,https://app.example.com/qrcodes/3/scan'',
         ''data:image/png;base64,https://app.example.com/qrcodes/1/scan'']) \<and>
   snd (getQRCodes example_env example_table ''example.myshopify.com'' product_lookup) =
     [Encode ''https://app.example.com/qrcodes/3/scan'', Query ''gid://shopify/Product/11'',
      Encode ''https://app.example.com/qrcodes/1/scan'', Query ''gid://shopify/Product/10'']"
proof -
  define r3 where "r3 = cart_row\<lparr>qr_id := 3, productId := ''gid://shopify/Product/11''\<rparr>"
  define r1 where "r1 = product_row\<lparr>qr_id := 1\<rparr>"
  define hat where "hat = Product ''Hat''
      [Image_node (Some ''A red hat'') ''https://cdn.example.com/hat.png'']"
  have none: "findMany example_table ''nobody.myshopify.com'' = []"
    by (simp add: findMany_def example_table_def cart_row_def product_row_def)
  have rows: "findMany example_table ''example.myshopify.com'' = [r3, r1]"
    by (simp add: findMany_def example_table_def cart_row_def product_row_def r3_def r1_def)
  have n3: "Number_toString 3 = ''3''" and n1: "Number_toString 1 = ''1''"
    by (simp_all add: Number_toString_def string_of_nat.simps digit_char_def)
  have origin: "SHOPIFY_APP_URL example_env = Some ''https://app.example.com''"
    by (simp add: example_env_def)
  have s3: "fst (supplementQRCode example_env r3 product_lookup) =
      Inr (augment r3 None ''https://example.myshopify.com/cart/4242:1''
             ''data:image/png;base64,https://app.example.com/qrcodes/3/scan'')"
    unfolding supplementQRCode_Inr
    by (simp add: example_env_def product_lookup_def getDestinationUrl_def regex_eval
        r3_def cart_row_def product_row_def n3)
  have s1: "fst (supplementQRCode example_env r1 product_lookup) =
      Inr (augment r1 (Some hat) ''https://example.myshopify.com/products/hat''
             ''data:image/png;base64,https://app.example.com/qrcodes/1/scan'')"
    unfolding supplementQRCode_Inr
    by (simp add: example_env_def product_lookup_def getDestinationUrl_def
        r1_def product_row_def n1 hat_def)
  note all = getQRCodes_all [of example_table _ example_env product_lookup]
  from all [of "''nobody.myshopify.com''"] none
  have empty: "getQRCodes example_env example_table ''nobody.myshopify.com'' product_lookup =
      (Fulfilled [], [])"
    by (elim conjE) simp
  note shop = all [of "''example.myshopify.com''", unfolded rows]
  have "map Inr
      [augment r3 None ''https://example.myshopify.com/cart/4242:1''
         ''data:image/png;base64,https://app.example.com/qrcodes/3/scan'',
       augment r1 (Some hat) ''https://example.myshopify.com/products/hat''
         ''data:image/png;base64,https://app.example.com/qrcodes/1/scan''] =
      map (\<lambda>qrCode. fst (supplementQRCode example_env qrCode product_lookup)) [r3, r1]"
    by (simp add: s3 s1)
  with shop have views:
    "fst (getQRCodes example_env example_table ''example.myshopify.com'' product_lookup) =
      Fulfilled
        [augment r3 None ''https://example.myshopify.com/cart/4242:1''
           ''data:image/png;base64,https://app.example.com/qrcodes/3/scan'',
         augment r1 (Some hat) ''https://example.myshopify.com/products/hat''
           ''data:image/png;base64,https://app.example.com/qrcodes/1/scan'']"
    by (elim conjE) (simp only:)
  from shop origin
  have calls:
    "snd (getQRCodes example_env example_table ''example.myshopify.com'' product_lookup) =
      concat (map (\<lambda>r. [Encode (''https://app.example.com'' @ ''/qrcodes/'' @
                                  Number_toString (qr_id r) @ ''/scan''),
                          Query (productId r)]) [r3, r1])"
    by (elim conjE) simp
  have fields: "\<exists>views.
      fst (getQRCodes example_env example_table ''example.myshopify.com'' product_lookup) =
        Fulfilled views \<and>
      map qr_id views = [3, 1] \<and>
      map productDeleted views = [True, False] \<and>
      map productTitle views = [None, Some ''Hat''] \<and>
      map productImage views = [None, Some ''https://cdn.example.com/hat.png''] \<and>
      map productAlt views = [None, Some ''A red hat''] \<and>
      map destinationUrl views =
        [''https://example.myshopify.com/cart/4242:1'',
         ''https://example.myshopify.com/products/hat''] \<and>
      map image_src views =
        [''data:image/png;base64,https://app.example.com/qrcodes/3/scan'',
         ''data:image/png;base64,https://app.example.com/qrcodes/1/scan'']"
    unfolding views
    by (simp add: augment_computed augment_product hat_def) (simp add: r3_def r1_def)
  from calls have calls':
    "snd (getQRCodes example_env example_table ''example.myshopify.com'' product_lookup) =
     [Encode ''https://app.example.com/qrcodes/3/scan'', Query ''gid://shopify/Product/11'',
      Encode ''https://app.example.com/qrcodes/1/scan'', Query ''gid://shopify/Product/10'']"
    by (simp add: r3_def r1_def n3 n1 cart_row_def product_row_def)
  from none empty fields calls' show ?thesis by (intro conjI)
qed


section \<open>Scan handler: the claim\<close>

text \<open>
  Claim C7, as amended.  For every scan request: when the id is missing, or no record has
  that id (which is so for every id that is not an integer), the handler fails with the
  error of the invariant and the table is as it was.  When the id is present, a record
  with that id exists and the destination of the record resolves, the scan counter of that
  record is greater by exactly 1, every other row and column is as it was, and the handler
  redirects to the resolved destination.
\<close>

theorem loader_scan:
  "(falsy (params_id ps) \<or>
    (\<exists>s. params_id ps = Some s \<and> (\<forall>r\<in>set table. Integer (qr_id r) \<noteq> toNumber s)) \<longrightarrow>
    loader toNumber ps table =
      (Inl (Invariant_failed ''Could not find QR code destination''), table)) \<and>
   (\<forall>s qrCode dest.
      params_id ps = Some s \<and> s \<noteq> [] \<and>
      find (\<lambda>r. Integer (qr_id r) = toNumber s) table = Some qrCode \<and>
      getDestinationUrl qrCode = Inr dest \<longrightarrow>
      loader toNumber ps table =
        (Inr (Redirect dest),
         map (\<lambda>r. if Integer (qr_id r) = toNumber s then r\<lparr>scans := scans r + 1\<rparr> else r)
           table))"
proof (intro conjI allI impI)
  assume "falsy (params_id ps) \<or>
    (\<exists>s. params_id ps = Some s \<and> (\<forall>r\<in>set table. Integer (qr_id r) \<noteq> toNumber s))"
  then show "loader toNumber ps table =
      (Inl (Invariant_failed ''Could not find QR code destination''), table)"
  proof
    assume "falsy (params_id ps)"
    then show ?thesis by (simp add: loader_def)
  next
    assume "\<exists>s. params_id ps = Some s \<and> (\<forall>r\<in>set table. Integer (qr_id r) \<noteq> toNumber s)"
    then obtain s where s: "params_id ps = Some s"
      and no: "\<forall>r\<in>set table. Integer (qr_id r) \<noteq> toNumber s" by blast
    from no have "find (\<lambda>r. Integer (qr_id r) = toNumber s) table = None"
      by (simp add: find_None_iff)
    with s show ?thesis
      by (simp add: loader_def Number_of_def findFirst_def)
  qed
next
  fix s qrCode dest
  assume "params_id ps = Some s \<and> s \<noteq> [] \<and>
      find (\<lambda>r. Integer (qr_id r) = toNumber s) table = Some qrCode \<and>
      getDestinationUrl qrCode = Inr dest"
  then show "loader toNumber ps table =
        (Inr (Redirect dest),
         map (\<lambda>r. if Integer (qr_id r) = toNumber s then r\<lparr>scans := scans r + 1\<rparr> else r)
           table)"
    by (simp add: loader_def falsy_def Number_of_def findFirst_def increment_scans_def
        change_row_def)
qed

theorem loader_scan_witness:
  "loader example_Number scan_params [cart_row] =
     (Inr (Redirect ''https://example.myshopify.com/cart/4242:1''),
      [cart_row\<lparr>scans := 8\<rparr>]) \<and>
   loader example_Number \<lparr>params_id = None\<rparr> [cart_row] =
     (Inl (Invariant_failed ''Could not find QR code destination''), [cart_row]) \<and>
   loader example_Number \<lparr>params_id = Some ''7''\<rparr> [cart_row] =
     (Inl (Invariant_failed ''Could not find QR code destination''), [cart_row]) \<and>
   loader example_Number \<lparr>params_id = Some ''abc''\<rparr> [cart_row] =
     (Inl (Invariant_failed ''Could not find QR code destination''), [cart_row])"
proof -
  have dest: "getDestinationUrl cart_row = Inr ''https://example.myshopify.com/cart/4242:1''"
    by (simp add: cart_row_def product_row_def getDestinationUrl_def regex_eval)
  have n42: "example_Number ''42'' = Integer 42"
    by (simp add: example_Number_def)
  have "params_id scan_params = Some ''42'' \<and> ''42'' \<noteq> [] \<and>
      find (\<lambda>r. Integer (qr_id r) = example_Number ''42'') [cart_row] = Some cart_row"
    by (simp add: n42) (simp add: scan_params_def cart_row_def product_row_def)
  with dest loader_scan [of scan_params "[cart_row]" example_Number]
  have "loader example_Number scan_params [cart_row] =
     (Inr (Redirect ''https://example.myshopify.com/cart/4242:1''),
      map (\<lambda>r. if Integer (qr_id r) = example_Number ''42'' then r\<lparr>scans := scans r + 1\<rparr> else r)
        [cart_row])"
    by (elim conjE allE [of _ "''42''"] allE [of _ cart_row]
        allE [of _ "''https://example.myshopify.com/cart/4242:1''"]) simp
  then have one: "loader example_Number scan_params [cart_row] =
     (Inr (Redirect ''https://example.myshopify.com/cart/4242:1''), [cart_row\<lparr>scans := 8\<rparr>])"
    by (simp add: n42) (simp add: cart_row_def product_row_def)
  have "falsy (params_id \<lparr>params_id = None\<rparr>)"
    by (simp add: falsy_def)
  with loader_scan [of "\<lparr>params_id = None\<rparr>" "[cart_row]" example_Number]
  have two: "loader example_Number \<lparr>params_id = None\<rparr> [cart_row] =
     (Inl (Invariant_failed ''Could not find QR code destination''), [cart_row])"
    by (elim conjE) simp
  have "\<exists>s. params_id \<lparr>params_id = Some ''7''\<rparr> = Some s \<and>
      (\<forall>r\<in>set [cart_row]. Integer (qr_id r) \<noteq> example_Number s)"
    by (simp add: example_Number_def cart_row_def product_row_def)
  with loader_scan [of "\<lparr>params_id = Some ''7''\<rparr>" "[cart_row]" example_Number]
  have three: "loader example_Number \<lparr>params_id = Some ''7''\<rparr> [cart_row] =
     (Inl (Invariant_failed ''Could not find QR code destination''), [cart_row])"
    by (elim conjE) simp
  have "\<exists>s. params_id \<lparr>params_id = Some ''abc''\<rparr> = Some s \<and>
      (\<forall>r\<in>set [cart_row]. Integer (qr_id r) \<noteq> example_Number s)"
    by (simp add: example_Number_def)
  with loader_scan [of "\<lparr>params_id = Some ''abc''\<rparr>" "[cart_row]" example_Number]
  have four: "loader example_Number \<lparr>params_id = Some ''abc''\<rparr> [cart_row] =
     (Inl (Invariant_failed ''Could not find QR code destination''), [cart_row])"
    by (elim conjE) simp
  from one two three four show ?thesis by (intro conjI)
qed

text \<open>
  The input that refutes claim C7 as written: the id is present and its record exists,
  but the variant reference of the record does not parse.  The handler issues no redirect;
  it raises the error of the resolver, and the counter has been incremented all the same.
\<close>

theorem loader_scan_counterexample:
  "params_id scan_params = Some ''42'' \<and>
   example_Number ''42'' = Integer 42 \<and>
   find (\<lambda>r. qr_id r = 42) [broken_row] = Some broken_row \<and>
   loader example_Number scan_params [broken_row] =
     (Inl (Invariant_failed ''Unrecognized product variant ID''),
      [broken_row\<lparr>scans := scans broken_row + 1\<rparr>])"
  by (simp add: loader_def falsy_def Number_of_def findFirst_def increment_scans_def
      change_row_def scan_params_def example_Number_def getDestinationUrl_def regex_eval
      broken_row_def cart_row_def product_row_def)

section \<open>Form submission: the claim\<close>

lemma validateQRCode_shop: "validateQRCode (d\<lparr>shop := s\<rparr>) = validateQRCode d"
  by (simp add: validateQRCode_def check_defs)

lemma fold_max_ge: "a \<le> fold max xs (a::int)"
  by (induction xs arbitrary: a) (auto intro: order_trans [OF max.cobounded2])

lemma fold_max_mem: "x \<in> set xs \<Longrightarrow> x \<le> fold max xs (a::int)"
proof (induction xs arbitrary: a)
  case Nil
  then show ?case by simp
next
  case (Cons y ys)
  show ?case
  proof (cases "x = y")
    case True
    have "max y a \<le> fold max ys (max y a)" by (rule fold_max_ge)
    with True show ?thesis by simp
  next
    case False
    with Cons show ?thesis by simp
  qed
qed

lemma fresh_id_new: "fresh_id table \<notin> qr_id ` set table"
proof
  assume "fresh_id table \<in> qr_id ` set table"
  then have "fresh_id table \<in> set (map qr_id table)" by simp
  then have "fresh_id table \<le> fold max (map qr_id table) 0" by (rule fold_max_mem)
  then show False by (simp add: fresh_id_def)
qed

lemma find_id_Some: "i \<in> qr_id ` set table \<Longrightarrow> \<exists>r. findFirst table (Integer i) = Some r"
  by (cases "findFirst table (Integer i)") (auto simp: findFirst_def find_None_iff)

lemma find_id_eq: "findFirst table (Integer i) = Some r \<Longrightarrow> qr_id r = i"
  by (auto simp: findFirst_def find_Some_iff)

lemma action_delete:
  assumes "action_key formData = Some ''delete''"
    and "Number_of toNumber (params_id ps) = Integer i" and "i \<in> qr_id ` set table"
  shows "action toNumber now session_shop formData ps table =
           (Inr (Redirect ''/app''), filter (\<lambda>r. qr_id r \<noteq> i) table)"
proof -
  from find_id_Some [OF assms(3)] obtain r where "findFirst table (Integer i) = Some r" ..
  with assms(1,2) show ?thesis
    by (simp add: action_def delete_def)
qed

lemma action_invalid:
  assumes "action_key formData \<noteq> Some ''delete''" and "validateQRCode formData = Some errors"
  shows "action toNumber now session_shop formData ps table =
           (Inr (Json_errors errors 422), table)"
  using assms by (simp add: action_def validateQRCode_shop)

lemma action_create:
  assumes "action_key formData \<noteq> Some ''delete''" and "validateQRCode formData = None"
    and "title formData = Some t" and "productId formData = Some p"
    and "productHandle formData = Some h" and "productVariantId formData = Some v"
    and "destination formData = Some d" and "params_id ps = Some ''new''"
  shows "action toNumber now session_shop formData ps table =
           (Inr (Redirect (''/app/qrcodes/'' @ Number_toString (fresh_id table))),
            table @ [\<lparr>title = t, shop = session_shop, productId = p, productHandle = h,
                      productVariantId = v, destination = d,
                      qr_id = fresh_id table, scans = 0, createdAt = now\<rparr>])"
  using assms by (simp add: action_def validateQRCode_shop create_def Let_def)

lemma action_update:
  assumes "action_key formData \<noteq> Some ''delete''" and "validateQRCode formData = None"
    and "title formData = Some t" and "productId formData = Some p"
    and "productHandle formData = Some h" and "productVariantId formData = Some v"
    and "destination formData = Some d" and "params_id ps \<noteq> Some ''new''"
    and "Number_of toNumber (params_id ps) = Integer i" and "i \<in> qr_id ` set table"
  shows "action toNumber now session_shop formData ps table =
           (Inr (Redirect (''/app/qrcodes/'' @ Number_toString i)),
            map (\<lambda>r. if qr_id r = i
                      then r\<lparr>title := t, shop := session_shop, productId := p,
                             productHandle := h, productVariantId := v, destination := d\<rparr>
                      else r) table)"
proof -
  from find_id_Some [OF assms(10)] obtain r where r: "findFirst table (Integer i) = Some r" ..
  then have "qr_id r = i" by (rule find_id_eq)
  with r assms(1-9) show ?thesis
    by (simp add: action_def validateQRCode_shop update_def change_row_def
        replace_columns_def or_keep_def)
qed

text \<open>
  Claim C9, as amended.  The claim as written leaves out what the storage layer needs: a
  stored record for a delete or an update, and all five columns for a new row, of which
  the validator checks three.  What holds, for every form submission: with the
  discriminator \<open>delete\<close> and the id of a stored record, the record is removed and the
  answer is a redirect to the listing, whatever the other fields hold: the validator is
  not consulted.  Without it, when the validator reports missing fields, the answer is the
  mapping of the errors with status 422 and the table is as it was.  When the validator
  reports nothing and the form carries the five columns, then for the id \<open>new\<close> a row with a
  fresh id, these columns, the shop of the session and a scan counter of 0 is added, and
  for the id of a stored record that record gets these columns and the shop of the session
  and keeps its id, counter and creation time; the answer is a redirect to the view of the
  row with that id.
\<close>

theorem action_submit:
  "(\<forall>i. action_key formData = Some ''delete'' \<and>
        Number_of toNumber (params_id ps) = Integer i \<and> i \<in> qr_id ` set table \<longrightarrow>
      action toNumber now session_shop formData ps table =
        (Inr (Redirect ''/app''), filter (\<lambda>r. qr_id r \<noteq> i) table)) \<and>
   (\<forall>errors. action_key formData \<noteq> Some ''delete'' \<and> validateQRCode formData = Some errors \<longrightarrow>
      action toNumber now session_shop formData ps table = (Inr (Json_errors errors 422), table)) \<and>
   (\<forall>t p h v d. action_key formData \<noteq> Some ''delete'' \<and> validateQRCode formData = None \<and>
        title formData = Some t \<and> productId formData = Some p \<and>
        productHandle formData = Some h \<and> productVariantId formData = Some v \<and>
        destination formData = Some d \<longrightarrow>
      (params_id ps = Some ''new'' \<longrightarrow>
         fresh_id table \<notin> qr_id ` set table \<and>
         action toNumber now session_shop formData ps table =
           (Inr (Redirect (''/app/qrcodes/'' @ Number_toString (fresh_id table))),
            table @ [\<lparr>title = t, shop = session_shop, productId = p, productHandle = h,
                      productVariantId = v, destination = d,
                      qr_id = fresh_id table, scans = 0, createdAt = now\<rparr>])) \<and>
      (\<forall>i. params_id ps \<noteq> Some ''new'' \<and> Number_of toNumber (params_id ps) = Integer i \<and>
            i \<in> qr_id ` set table \<longrightarrow>
         action toNumber now session_shop formData ps table =
           (Inr (Redirect (''/app/qrcodes/'' @ Number_toString i)),
            map (\<lambda>r. if qr_id r = i
                      then r\<lparr>title := t, shop := session_shop, productId := p,
                             productHandle := h, productVariantId := v, destination := d\<rparr>
                      else r) table)))"
proof (intro conjI allI impI)
  fix i
  assume "action_key formData = Some ''delete'' \<and>
        Number_of toNumber (params_id ps) = Integer i \<and> i \<in> qr_id ` set table"
  then show "action toNumber now session_shop formData ps table =
        (Inr (Redirect ''/app''), filter (\<lambda>r. qr_id r \<noteq> i) table)"
    by (intro action_delete) simp_all
next
  fix errors
  assume "action_key formData \<noteq> Some ''delete'' \<and> validateQRCode formData = Some errors"
  then show "action toNumber now session_shop formData ps table =
      (Inr (Json_errors errors 422), table)"
    by (intro action_invalid) simp_all
next
  show "fresh_id table \<notin> qr_id ` set table" by (rule fresh_id_new)
next
  fix t p h v d
  assume a: "action_key formData \<noteq> Some ''delete'' \<and> validateQRCode formData = None \<and>
        title formData = Some t \<and> productId formData = Some p \<and>
        productHandle formData = Some h \<and> productVariantId formData = Some v \<and>
        destination formData = Some d"
    and b: "params_id ps = Some ''new''"
  from a b show "action toNumber now session_shop formData ps table =
           (Inr (Redirect (''/app/qrcodes/'' @ Number_toString (fresh_id table))),
            table @ [\<lparr>title = t, shop = session_shop, productId = p, productHandle = h,
                      productVariantId = v, destination = d,
                      qr_id = fresh_id table, scans = 0, createdAt = now\<rparr>])"
    by (intro action_create) simp_all
next
  fix t p h v d i
  assume a: "action_key formData \<noteq> Some ''delete'' \<and> validateQRCode formData = None \<and>
        title formData = Some t \<and> productId formData = Some p \<and>
        productHandle formData = Some h \<and> productVariantId formData = Some v \<and>
        destination formData = Some d"
    and b: "params_id ps \<noteq> Some ''new'' \<and> Number_of toNumber (params_id ps) = Integer i \<and>
            i \<in> qr_id ` set table"
  from a b show "action toNumber now session_shop formData ps table =
           (Inr (Redirect (''/app/qrcodes/'' @ Number_toString i)),
            map (\<lambda>r. if qr_id r = i
                      then r\<lparr>title := t, shop := session_shop, productId := p,
                             productHandle := h, productVariantId := v, destination := d\<rparr>
                      else r) table)"
    by (intro action_update) simp_all
qed

text \<open>
  A delete that carries no other field, a save with two fields missing, a save under the
  id \<open>new\<close>, and a save under the id of a stored record.
\<close>

theorem action_submit_witness:
  "action example_Number 0 ''example.myshopify.com'' delete_form scan_params [cart_row] =
     (Inr (Redirect ''/app''), []) \<and>
   action example_Number 0 ''example.myshopify.com'' draft \<lparr>params_id = Some ''new''\<rparr> [cart_row] =
     (Inr (Json_errors [(''title'', ''Title is required''),
                        (''destination'', ''Destination is required'')] 422),
      [cart_row]) \<and>
   action example_Number 5 ''example.myshopify.com'' complete_draft \<lparr>params_id = Some ''new''\<rparr>
       [cart_row] =
     (Inr (Redirect ''/app/qrcodes/43''),
      [cart_row,
       \<lparr>title = ''Hat'', shop = ''example.myshopify.com'',
        productId = ''gid://shopify/Product/10'', productHandle = ''hat'',
        productVariantId = ''gid://shopify/ProductVariant/4242'', destination = ''cart'',
        qr_id = 43, scans = 0, createdAt = 5\<rparr>]) \<and>
   action example_Number 5 ''example.myshopify.com'' (complete_draft\<lparr>title := Some ''Cap''\<rparr>)
       scan_params [product_row] =
     (Inr (Redirect ''/app/qrcodes/42''),
      [product_row\<lparr>title := ''Cap'', destination := ''cart''\<rparr>])"
proof -
  have n42: "Number_of example_Number (params_id scan_params) = Integer 42"
    by (simp add: Number_of_def example_Number_def scan_params_def)
  have "action_key delete_form = Some ''delete'' \<and>
      Number_of example_Number (params_id scan_params) = Integer 42 \<and>
      42 \<in> qr_id ` set [cart_row]"
    by (simp add: n42 delete_form_def cart_row_def product_row_def)
  with action_submit [of delete_form example_Number scan_params "[cart_row]" 0
      "''example.myshopify.com''"]
  have "action example_Number 0 ''example.myshopify.com'' delete_form scan_params [cart_row] =
     (Inr (Redirect ''/app''), filter (\<lambda>r. qr_id r \<noteq> 42) [cart_row])"
    by blast
  then have one: "action example_Number 0 ''example.myshopify.com'' delete_form scan_params
      [cart_row] = (Inr (Redirect ''/app''), [])"
    by (simp add: cart_row_def product_row_def)
  have "action_key draft \<noteq> Some ''delete'' \<and>
      validateQRCode draft = Some [(''title'', ''Title is required''),
                        (''destination'', ''Destination is required'')]"
    by (simp add: draft_def complete_draft_def validateQRCode_def check_def check_defs
        falsy_def finish_def)
  with action_submit [of draft example_Number "\<lparr>params_id = Some ''new''\<rparr>" "[cart_row]" 0
      "''example.myshopify.com''"]
  have two: "action example_Number 0 ''example.myshopify.com'' draft \<lparr>params_id = Some ''new''\<rparr>
       [cart_row] =
     (Inr (Json_errors [(''title'', ''Title is required''),
                        (''destination'', ''Destination is required'')] 422),
      [cart_row])"
    by blast
  have ok: "action_key complete_draft \<noteq> Some ''delete'' \<and> validateQRCode complete_draft = None \<and>
      title complete_draft = Some ''Hat'' \<and>
      productId complete_draft = Some ''gid://shopify/Product/10'' \<and>
      productHandle complete_draft = Some ''hat'' \<and>
      productVariantId complete_draft = Some ''gid://shopify/ProductVariant/4242'' \<and>
      destination complete_draft = Some ''cart''"
    by (simp add: complete_draft_def validateQRCode_def check_def check_defs falsy_def
        finish_def)
  have new: "params_id \<lparr>params_id = Some ''new''\<rparr> = Some ''new''"
    by simp
  from ok new action_submit [of complete_draft example_Number "\<lparr>params_id = Some ''new''\<rparr>"
      "[cart_row]" 5 "''example.myshopify.com''"]
  have "action example_Number 5 ''example.myshopify.com'' complete_draft
       \<lparr>params_id = Some ''new''\<rparr> [cart_row] =
     (Inr (Redirect (''/app/qrcodes/'' @ Number_toString (fresh_id [cart_row]))),
      [cart_row] @
        [\<lparr>title = ''Hat'', shop = ''example.myshopify.com'',
          productId = ''gid://shopify/Product/10'', productHandle = ''hat'',
          productVariantId = ''gid://shopify/ProductVariant/4242'', destination = ''cart'',
          qr_id = fresh_id [cart_row], scans = 0, createdAt = 5\<rparr>])"
    by blast
  moreover have "fresh_id [cart_row] = 43"
    by (simp add: fresh_id_def cart_row_def product_row_def)
  moreover have "Number_toString 43 = ''43''"
    by (simp add: Number_toString_def string_of_nat.simps digit_char_def)
  ultimately have three: "action example_Number 5 ''example.myshopify.com'' complete_draft
       \<lparr>params_id = Some ''new''\<rparr> [cart_row] =
     (Inr (Redirect ''/app/qrcodes/43''),
      [cart_row,
       \<lparr>title = ''Hat'', shop = ''example.myshopify.com'',
        productId = ''gid://shopify/Product/10'', productHandle = ''hat'',
        productVariantId = ''gid://shopify/ProductVariant/4242'', destination = ''cart'',
        qr_id = 43, scans = 0, createdAt = 5\<rparr>])"
    by simp
  have cap: "action_key (complete_draft\<lparr>title := Some ''Cap''\<rparr>) \<noteq> Some ''delete'' \<and>
      validateQRCode (complete_draft\<lparr>title := Some ''Cap''\<rparr>) = None \<and>
      title (complete_draft\<lparr>title := Some ''Cap''\<rparr>) = Some ''Cap'' \<and>
      productId (complete_draft\<lparr>title := Some ''Cap''\<rparr>) = Some ''gid://shopify/Product/10'' \<and>
      productHandle (complete_draft\<lparr>title := Some ''Cap''\<rparr>) = Some ''hat'' \<and>
      productVariantId (complete_draft\<lparr>title := Some ''Cap''\<rparr>) =
        Some ''gid://shopify/ProductVariant/4242'' \<and>
      destination (complete_draft\<lparr>title := Some ''Cap''\<rparr>) = Some ''cart''"
    by (simp add: complete_draft_def validateQRCode_def check_def check_defs falsy_def
        finish_def)
  have old: "params_id scan_params \<noteq> Some ''new'' \<and>
      Number_of example_Number (params_id scan_params) = Integer 42 \<and>
      42 \<in> qr_id ` set [product_row]"
    by (simp add: n42) (simp add: scan_params_def product_row_def)
  from cap old action_submit [of "complete_draft\<lparr>title := Some ''Cap''\<rparr>" example_Number
      scan_params "[product_row]" 5 "''example.myshopify.com''"]
  have "action example_Number 5 ''example.myshopify.com'' (complete_draft\<lparr>title := Some ''Cap''\<rparr>)
       scan_params [product_row] =
     (Inr (Redirect (''/app/qrcodes/'' @ Number_toString 42)),
      map (\<lambda>r. if qr_id r = 42
                then r\<lparr>title := ''Cap'', shop := ''example.myshopify.com'',
                       productId := ''gid://shopify/Product/10'', productHandle := ''hat'',
                       productVariantId := ''gid://shopify/ProductVariant/4242'',
                       destination := ''cart''\<rparr>
                else r) [product_row])"
    by blast
  then have four: "action example_Number 5 ''example.myshopify.com''
       (complete_draft\<lparr>title := Some ''Cap''\<rparr>) scan_params [product_row] =
     (Inr (Redirect ''/app/qrcodes/42''),
      [product_row\<lparr>title := ''Cap'', destination := ''cart''\<rparr>])"
    by (simp add: Number_toString_42) (simp add: product_row_def)
  from one two three four show ?thesis by simp
qed

text \<open>
  The inputs that refute claim C9 as written.  A save under the id \<open>new\<close> that passes
  validation and carries no product handle: nothing is created and there is no redirect.
  A save that passes validation, and a delete, under an id that no record has: nothing is
  replaced or removed and there is no redirect.
\<close>

theorem action_submit_counterexample:
  "action_key (complete_draft\<lparr>productHandle := None\<rparr>) \<noteq> Some ''delete'' \<and>
   validateQRCode (complete_draft\<lparr>productHandle := None\<rparr>) = None \<and>
   action example_Number 5 ''example.myshopify.com'' (complete_draft\<lparr>productHandle := None\<rparr>)
       \<lparr>params_id = Some ''new''\<rparr> [cart_row] =
     (Inl Storage_rejected, [cart_row]) \<and>
   validateQRCode complete_draft = None \<and>
   action example_Number 5 ''example.myshopify.com'' complete_draft
       \<lparr>params_id = Some ''7''\<rparr> [cart_row] =
     (Inl Record_not_found, [cart_row]) \<and>
   action example_Number 5 ''example.myshopify.com'' delete_form
       \<lparr>params_id = Some ''7''\<rparr> [cart_row] =
     (Inl Record_not_found, [cart_row])"
  by (simp add: action_def validateQRCode_def check_def check_defs falsy_def finish_def
      create_def update_def delete_def change_row_def findFirst_def Number_of_def
      example_Number_def complete_draft_def delete_form_def cart_row_def product_row_def)

end
